theory Spec2Isabelle
  imports Complex_Main
begin

section \<open>JavaScript values used by the sources\<close>

text \<open>
  A JavaScript number is modelled by its mathematical value when it is finite, with the
  three non-finite values kept apart, so that a division by zero is a branch of the model
  and not the value HOL gives to \<open>x / 0\<close>. A division or a multiplication gives the
  double nearest to the exact result (\<open>to_double\<close> below); a decimal literal of the
  source is written as the fraction it spells. The sign of zero is not modelled.
\<close>

datatype jsnum = Num rat | NaN | PosInf | NegInf

text \<open>A property of an object of type \<open>Partial<T>\<close>: missing, present with the
  value \<open>undefined\<close>, or present with a value.\<close>

datatype 'a property = Absent | Undefined | Val 'a

text \<open>Truthiness (\<open>!x\<close>, \<open>x || y\<close>, \<open>if (x)\<close>): the empty string, \<open>0\<close>, \<open>NaN\<close>,
  \<open>undefined\<close> and \<open>null\<close> are falsy.\<close>

definition truthy_str :: "string \<Rightarrow> bool" where
  "truthy_str s = (s \<noteq> [])"

fun truthy_num :: "jsnum \<Rightarrow> bool" where
  "truthy_num (Num r) = (r \<noteq> 0)"
| "truthy_num NaN = False"
| "truthy_num PosInf = True"
| "truthy_num NegInf = True"

text \<open>\<open>x || d\<close> for a number \<open>x\<close> that may be \<open>undefined\<close> (\<open>None\<close>).\<close>

fun or_num :: "jsnum option \<Rightarrow> jsnum \<Rightarrow> jsnum" where
  "or_num None d = d"
| "or_num (Some x) d = (if truthy_num x then x else d)"

text \<open>One property of the object spread \<open>{ ...defaults, ...options }\<close>: an own property
  of \<open>options\<close> wins, also when its value is \<open>undefined\<close>.\<close>

fun spread :: "'a \<Rightarrow> 'a property \<Rightarrow> 'a option" where
  "spread d Absent = Some d"
| "spread d Undefined = None"
| "spread d (Val v) = Some v"

subsection \<open>Rounding to a double\<close>

text \<open>
  The result of an arithmetic operation is the double nearest to the exact result, ties
  going to the even significand. \<open>norm_up\<close> and \<open>norm_down\<close> scale a positive number
  into the range of a 53-bit significand, by doubling at most 1074 times (below that lie
  the subnormal numbers, whose spacing is fixed) or by halving at most 971 times (above
  that the result is infinite).
\<close>

definition round_even :: "rat \<Rightarrow> int" where
  "round_even y =
     (let f = \<lfloor>y\<rfloor>; d = y - rat_of_int f
      in if d < 1 / 2 then f else if 1 / 2 < d then f + 1 else if even f then f else f + 1)"

fun norm_up :: "nat \<Rightarrow> nat \<Rightarrow> rat \<Rightarrow> rat \<times> nat" where
  "norm_up 0 k y = (y, k)"
| "norm_up (Suc n) k y = (if 2 ^ 52 \<le> y then (y, k) else norm_up n (Suc k) (2 * y))"

fun norm_down :: "nat \<Rightarrow> nat \<Rightarrow> rat \<Rightarrow> (rat \<times> nat) option" where
  "norm_down 0 k y = (if y < 2 ^ 53 then Some (y, k) else None)"
| "norm_down (Suc n) k y = (if y < 2 ^ 53 then Some (y, k) else norm_down n (Suc k) (y / 2))"

definition to_double_pos :: "rat \<Rightarrow> jsnum" where
  "to_double_pos x =
     (if x < 2 ^ 53 then
        (case norm_up 1074 0 x of (y, k) \<Rightarrow> Num (rat_of_int (round_even y) / 2 ^ k))
      else
        (case norm_down 971 0 x of
           None \<Rightarrow> PosInf
         | Some (y, k) \<Rightarrow>
             if round_even y = 2 ^ 53 \<and> k = 971 then PosInf
             else Num (rat_of_int (round_even y) * 2 ^ k)))"

fun js_neg :: "jsnum \<Rightarrow> jsnum" where
  "js_neg (Num r) = Num (- r)"
| "js_neg NaN = NaN"
| "js_neg PosInf = NegInf"
| "js_neg NegInf = PosInf"

definition to_double :: "rat \<Rightarrow> jsnum" where
  "to_double x =
     (if x = 0 then Num 0 else if 0 < x then to_double_pos x else js_neg (to_double_pos (- x)))"

subsection \<open>\<open>String.prototype.replace\<close> with a string pattern\<close>

text \<open>The first occurrence of the pattern splits the subject into the text before it and
  the text after it.\<close>

fun split_first :: "string \<Rightarrow> string \<Rightarrow> (string \<times> string) option" where
  "split_first pat [] = (if pat = [] then Some ([], []) else None)"
| "split_first pat (c # cs) =
     (if take (length pat) (c # cs) = pat then Some ([], drop (length pat) (c # cs))
      else (case split_first pat cs of
              None \<Rightarrow> None
            | Some (b, a) \<Rightarrow> Some (c # b, a)))"

text \<open>
  The replacement string is not inserted as it is: \<open>$$\<close> stands for one dollar sign,
  \<open>$&\<close> for the matched text, \<open>$`\<close> for the text before the match and \<open>$'\<close> for the
  text after it. A string pattern has no capture groups, so every other use of the dollar
  sign is literal.
\<close>

fun get_substitution :: "string \<Rightarrow> string \<Rightarrow> string \<Rightarrow> string \<Rightarrow> string" where
  "get_substitution m b a [] = []"
| "get_substitution m b a [c] = [c]"
| "get_substitution m b a (c # d # r) =
     (if c = CHR ''$'' then
        (if d = CHR ''$'' then CHR ''$'' # get_substitution m b a r
         else if d = CHR ''&'' then m @ get_substitution m b a r
         else if d = CHR 0x60 then b @ get_substitution m b a r
         else if d = CHR 0x27 then a @ get_substitution m b a r
         else c # get_substitution m b a (d # r))
      else c # get_substitution m b a (d # r))"

definition js_replace :: "string \<Rightarrow> string \<Rightarrow> string \<Rightarrow> string" where
  "js_replace subject pat repl =
     (case split_first pat subject of
        None \<Rightarrow> subject
      | Some (b, a) \<Rightarrow> b @ get_substitution pat b a repl @ a)"

subsection \<open>\<open>String.prototype.trim\<close>\<close>

text \<open>A string is the list of its code units, of which \<open>char\<close> holds those below 256.
  The white space and line terminators among them are the ones \<open>trim\<close> removes.\<close>

definition is_space :: "char \<Rightarrow> bool" where
  "is_space c =
     (c \<in> {CHR 0x09, CHR 0x0A, CHR 0x0B, CHR 0x0C, CHR 0x0D, CHR 0x20, CHR 0xA0})"

definition trim :: "string \<Rightarrow> string" where
  "trim s = rev (dropWhile is_space (rev (dropWhile is_space s)))"

section \<open>The inference engine as the service sees it\<close>

datatype error =
    NotInitialized          \<comment> \<open>\<open>Error('LLaMA context not initialized. Call init() first.')\<close>\<close>
  | EngineError string      \<comment> \<open>whatever the engine throws\<close>
  | IOError string          \<comment> \<open>whatever the file system throws\<close>
  | DownloadFailed int      \<comment> \<open>\<open>Error(`Download failed with status code ${statusCode}`)\<close>\<close>
  | TransportError string   \<comment> \<open>the rejected promise of a transfer\<close>

type_synonym handle = nat

record init_params =
  model :: "string"
  n_ctx :: "jsnum option"
  n_gpu_layers :: "jsnum option"
  use_mlock :: "bool option"

record completion_params =
  prompt :: string
  n_predict :: jsnum
  temperature :: jsnum
  stop :: "string list"

text \<open>What the library answers is a parameter of the model: whether \<open>initLlama\<close> throws,
  whether \<open>release\<close> throws, and what a completion returns.\<close>

record llama_rn =
  initLlama_throws :: "init_params \<Rightarrow> string option"
  release_throws :: "handle \<Rightarrow> string option"
  completion_result :: "handle \<Rightarrow> completion_params \<Rightarrow> error + string"

text \<open>The engine's side of the world: the contexts that were created and not released,
  the next context to hand out, every context created with the parameters it was created
  from, and the completion requests received.\<close>

record engine =
  live :: "handle list"
  fresh :: handle
  created :: "(handle \<times> init_params) list"
  requests :: "(handle \<times> completion_params) list"

section \<open>LlamaService\<close>

record LlamaOptions =
  modelPath :: string
  promptTemplate :: string
  temperature_opt :: jsnum
  maxTokens :: jsnum
  contextSize :: jsnum
  gpuLayers :: jsnum
  useMLock :: bool

record PartialOptions =
  p_modelPath :: "string property"
  p_promptTemplate :: "string property"
  p_temperature :: "jsnum property"
  p_maxTokens :: "jsnum property"
  p_contextSize :: "jsnum property"
  p_gpuLayers :: "jsnum property"
  p_useMLock :: "bool property"

record MergedOptions =
  m_modelPath :: "string option"
  m_promptTemplate :: "string option"
  m_temperature :: "jsnum option"
  m_maxTokens :: "jsnum option"
  m_contextSize :: "jsnum option"
  m_gpuLayers :: "jsnum option"
  m_useMLock :: "bool option"

text \<open>A call without the \<open>options\<close> argument spreads \<open>undefined\<close>, which adds nothing.\<close>

definition no_options :: PartialOptions where
  "no_options = \<lparr>p_modelPath = Absent, p_promptTemplate = Absent, p_temperature = Absent,
     p_maxTokens = Absent, p_contextSize = Absent, p_gpuLayers = Absent, p_useMLock = Absent\<rparr>"

definition merge_options :: "LlamaOptions \<Rightarrow> PartialOptions \<Rightarrow> MergedOptions" where
  "merge_options d p =
     \<lparr>m_modelPath = spread (modelPath d) (p_modelPath p),
      m_promptTemplate = spread (promptTemplate d) (p_promptTemplate p),
      m_temperature = spread (temperature_opt d) (p_temperature p),
      m_maxTokens = spread (maxTokens d) (p_maxTokens p),
      m_contextSize = spread (contextSize d) (p_contextSize p),
      m_gpuLayers = spread (gpuLayers d) (p_gpuLayers p),
      m_useMLock = spread (useMLock d) (p_useMLock p)\<rparr>"

record LlamaService =
  isInitialized :: bool
  llamaContext :: "handle option"
  defaultOptions :: LlamaOptions

definition default_template :: string where
  "default_template =
     ''<start_of_turn>user'' @ [CHR 0x0A] @ ''{prompt}<end_of_turn>'' @ [CHR 0x0A]
       @ ''<start_of_turn>model'' @ [CHR 0x0A]"

definition new_service :: LlamaService where
  "new_service =
     \<lparr>isInitialized = False, llamaContext = None,
      defaultOptions =
        \<lparr>modelPath = [], promptTemplate = default_template, temperature_opt = Num (7 / 10),
         maxTokens = Num 512, contextSize = Num 2048, gpuLayers = Num 0, useMLock = True\<rparr>\<rparr>"

definition new_engine :: engine where
  "new_engine = \<lparr>live = [], fresh = 0, created = [], requests = []\<rparr>"

text \<open>\<open>init\<close>: the result, the service and the engine afterwards. Nothing in it releases
  a context; the \<open>catch\<close> block only forgets the one the service held.\<close>

definition init_params_of :: "string \<Rightarrow> MergedOptions \<Rightarrow> init_params" where
  "init_params_of path mergedOptions =
     \<lparr>model = path, n_ctx = m_contextSize mergedOptions,
      n_gpu_layers = m_gpuLayers mergedOptions, use_mlock = m_useMLock mergedOptions\<rparr>"

definition init ::
  "llama_rn \<Rightarrow> PartialOptions \<Rightarrow> LlamaService \<times> engine \<Rightarrow> bool \<times> LlamaService \<times> engine" where
  "init lib options se =
     (let svc = fst se; eng = snd se;
          mergedOptions = merge_options (defaultOptions svc) options
      in case m_modelPath mergedOptions of
           None \<Rightarrow> (False, svc, eng)
         | Some path \<Rightarrow>
             if \<not> truthy_str path then (False, svc, eng)
             else
               (case initLlama_throws lib (init_params_of path mergedOptions) of
                  Some err \<Rightarrow> (False, svc\<lparr>llamaContext := None, isInitialized := False\<rparr>, eng)
                | None \<Rightarrow>
                    (True,
                     svc\<lparr>llamaContext := Some (fresh eng), isInitialized := True,
                         defaultOptions := (defaultOptions svc)\<lparr>modelPath := path\<rparr>\<rparr>,
                     eng\<lparr>live := fresh eng # live eng, fresh := Suc (fresh eng),
                         created := created eng @ [(fresh eng, init_params_of path mergedOptions)]\<rparr>)))"

definition stop_words :: "string list" where
  "stop_words = [''<end_of_turn>'', ''</s>'', ''<|eot_id|>'', ''User:'', ''Llama:'']"

definition format_prompt :: "MergedOptions \<Rightarrow> string \<Rightarrow> string" where
  "format_prompt mergedOptions p =
     (case m_promptTemplate mergedOptions of
        None \<Rightarrow> p
      | Some t \<Rightarrow> if truthy_str t then js_replace t ''{prompt}'' p else p)"

definition completion_request :: "LlamaOptions \<Rightarrow> PartialOptions \<Rightarrow> string \<Rightarrow> completion_params" where
  "completion_request d options p =
     (let mergedOptions = merge_options d options
      in \<lparr>prompt = format_prompt mergedOptions p,
          n_predict = or_num (m_maxTokens mergedOptions) (Num 512),
          temperature = or_num (m_temperature mergedOptions) (Num (7 / 10)),
          stop = stop_words\<rparr>)"

text \<open>\<open>generateResponse\<close>: the text or the error thrown, and the engine afterwards.
  The service itself is not changed. Console output is not part of the model, here and
  in the other functions.\<close>

definition generateResponse ::
  "llama_rn \<Rightarrow> string \<Rightarrow> PartialOptions \<Rightarrow> LlamaService \<times> engine \<Rightarrow> (error + string) \<times> engine" where
  "generateResponse lib p options se =
     (let svc = fst se; eng = snd se
      in if \<not> isInitialized svc then (Inl NotInitialized, eng)
         else
           (case llamaContext svc of
              None \<Rightarrow> (Inl NotInitialized, eng)
            | Some h \<Rightarrow>
                (let req = completion_request (defaultOptions svc) options p;
                     eng' = eng\<lparr>requests := requests eng @ [(h, req)]\<rparr>
                 in case completion_result lib h req of
                      Inl e \<Rightarrow> (Inl e, eng')
                    | Inr text \<Rightarrow> (Inr (trim text), eng'))))"

text \<open>\<open>cleanup\<close>: the two assignments stand after the awaited \<open>release\<close> inside the
  \<open>try\<close> block, so a \<open>release\<close> that throws skips them; the \<open>catch\<close> block only logs.\<close>

definition cleanup :: "llama_rn \<Rightarrow> LlamaService \<times> engine \<Rightarrow> LlamaService \<times> engine" where
  "cleanup lib se =
     (let svc = fst se; eng = snd se
      in case llamaContext svc of
           None \<Rightarrow> (svc, eng)
         | Some h \<Rightarrow>
             (case release_throws lib h of
                Some err \<Rightarrow> (svc, eng)
              | None \<Rightarrow>
                  (svc\<lparr>llamaContext := None, isInitialized := False\<rparr>,
                   eng\<lparr>live := removeAll h (live eng)\<rparr>)))"

text \<open>The two states of the session manager.\<close>

definition Uninitialized :: "LlamaService \<Rightarrow> bool" where
  "Uninitialized svc = (llamaContext svc = None \<and> \<not> isInitialized svc)"

definition Ready :: "LlamaService \<Rightarrow> bool" where
  "Ready svc = (llamaContext svc \<noteq> None \<and> isInitialized svc)"

section \<open>Model store\<close>

record ModelInfo =
  model_name :: string
  model_size :: string
  url :: string
  localPath :: string

definition gemma_2b :: ModelInfo where
  "gemma_2b =
     \<lparr>model_name = ''Gemma 2B Instruct'', model_size = ''1.57GB'',
      url = ''https://huggingface.co/lmstudio-community/gemma-2-2b-it-GGUF/resolve/main/gemma-2-2b-it-IQ4_XS.gguf'',
      localPath = ''gemma-2-2b-it-IQ4_XS.gguf''\<rparr>"

definition phi_2 :: ModelInfo where
  "phi_2 =
     \<lparr>model_name = ''Phi-2 (Small)'', model_size = ''1.7GB'',
      url = ''https://huggingface.co/TheBloke/phi-2-GGUF/resolve/main/phi-2.Q4_K_M.gguf'',
      localPath = ''phi-2.Q4_K_M.gguf''\<rparr>"

definition availableModels :: "ModelInfo list" where
  "availableModels = [gemma_2b, phi_2]"

text \<open>One transfer as the transport performs it: the progress reports
  \<open>(bytesWritten, contentLength)\<close> it makes, whether the destination file is there
  afterwards, and the status code it resolves with (or the error it rejects with).\<close>

record transfer =
  reports :: "(int \<times> int) list"
  written :: bool
  outcome :: "string + int"

text \<open>The platform and the file-system library are parameters of the model.\<close>

record rnfs =
  platform_os :: string
  DocumentDirectoryPath :: string
  ExternalDirectoryPath :: string
  exists_throws :: "string \<Rightarrow> string option"
  mkdir_throws :: "string \<Rightarrow> string option"
  downloadFile :: "string \<Rightarrow> string \<Rightarrow> transfer"

text \<open>The device: the paths that exist, and the transfers performed so far
  (source URL and destination).\<close>

record device =
  paths :: "string set"
  transfers :: "(string \<times> string) list"

definition getModelsDir :: "rnfs \<Rightarrow> string" where
  "getModelsDir fs =
     (if platform_os fs = ''ios'' then DocumentDirectoryPath fs else ExternalDirectoryPath fs)
       @ ''/models''"

definition getModelPath :: "rnfs \<Rightarrow> string \<Rightarrow> string" where
  "getModelPath fs modelFileName = getModelsDir fs @ ''/'' @ modelFileName"

definition checkModelExists :: "rnfs \<Rightarrow> device \<Rightarrow> string \<Rightarrow> bool" where
  "checkModelExists fs dev modelFileName =
     (let mpath = getModelsDir fs @ ''/'' @ modelFileName
      in case exists_throws fs mpath of
           Some err \<Rightarrow> False
         | None \<Rightarrow> mpath \<in> paths dev)"

definition ensureModelsDir :: "rnfs \<Rightarrow> device \<Rightarrow> error + device" where
  "ensureModelsDir fs dev =
     (let modelsDir = getModelsDir fs
      in case exists_throws fs modelsDir of
           Some err \<Rightarrow> Inl (IOError err)
         | None \<Rightarrow>
             if modelsDir \<in> paths dev then Inr dev
             else (case mkdir_throws fs modelsDir of
                     Some err \<Rightarrow> Inl (IOError err)
                   | None \<Rightarrow> Inr (dev\<lparr>paths := insert modelsDir (paths dev)\<rparr>)))"

text \<open>\<open>res.bytesWritten / res.contentLength\<close>: a division of two numbers, with what
  JavaScript gives when the divisor is zero. The two numbers are byte counts, whole
  numbers that a double holds exactly up to \<open>2 ^ 53\<close>.\<close>

definition js_div :: "int \<Rightarrow> int \<Rightarrow> jsnum" where
  "js_div a b =
     (if b = 0 then (if a = 0 then NaN else if 0 < a then PosInf else NegInf)
      else to_double (rat_of_int a / rat_of_int b))"

definition report_progress :: "int \<times> int \<Rightarrow> jsnum" where
  "report_progress res = js_div (fst res) (snd res)"

text \<open>\<open>downloadModel\<close>: the path or the error thrown, the values passed to
  \<open>onProgress\<close> in order, and the device afterwards.\<close>

definition downloadModel ::
  "rnfs \<Rightarrow> ModelInfo \<Rightarrow> device \<Rightarrow> (error + string) \<times> jsnum list \<times> device" where
  "downloadModel fs m dev =
     (case ensureModelsDir fs dev of
        Inl e \<Rightarrow> (Inl e, [], dev)
      | Inr dev1 \<Rightarrow>
          (let mpath = getModelPath fs (localPath m)
           in if checkModelExists fs dev1 (localPath m) then (Inr mpath, [], dev1)
              else
                (let t = downloadFile fs (url m) mpath;
                     dev2 = dev1\<lparr>paths := (if written t then insert mpath (paths dev1)
                                             else paths dev1),
                                 transfers := transfers dev1 @ [(url m, mpath)]\<rparr>;
                     progress = map report_progress (reports t)
                 in case outcome t of
                      Inl err \<Rightarrow> (Inl (TransportError err), progress, dev2)
                    | Inr statusCode \<Rightarrow>
                        if statusCode = 200 then (Inr mpath, progress, dev2)
                        else (Inl (DownloadFailed statusCode), progress, dev2))))"

section \<open>ModelDownloader\<close>

record ModelDownloader =
  modalVisible :: bool
  downloadProgress :: "string \<rightharpoonup> jsnum"
  currentlyDownloading :: "string option"

definition new_downloader :: ModelDownloader where
  "new_downloader =
     \<lparr>modalVisible = False, downloadProgress = Map.empty, currentlyDownloading = None\<rparr>"

text \<open>The dialogs the component shows, one constructor for each call of \<open>Alert.alert\<close>.\<close>

datatype alert =
    DownloadInProgress
  | ConfirmDownload ModelInfo
  | DownloadComplete ModelInfo string
  | DownloadFailedAlert error

text \<open>\<open>if (currentlyDownloading)\<close> on a value of type \<open>string | null\<close>.\<close>

fun truthy_marker :: "string option \<Rightarrow> bool" where
  "truthy_marker None = False"
| "truthy_marker (Some s) = truthy_str s"

text \<open>\<open>handleDownload\<close> itself changes no state: it shows one of two dialogs. The
  download starts from the \<open>Download\<close> button of the second one. Showing a dialog
  does not throw, so the outer \<open>catch\<close> block has no branch here.\<close>

definition handleDownload :: "ModelInfo \<Rightarrow> ModelDownloader \<Rightarrow> ModelDownloader \<times> alert list" where
  "handleDownload m st =
     (if truthy_marker (currentlyDownloading st) then (st, [DownloadInProgress])
      else (st, [ConfirmDownload m]))"

text \<open>The \<open>Download\<close> button's handler, in its three parts: the two updates before the
  transfer (the progress record written is the one of the render that showed the dialog),
  the progress callback, and the \<open>finally\<close> block.\<close>

definition startDownload :: "ModelInfo \<Rightarrow> ModelDownloader \<Rightarrow> ModelDownloader \<Rightarrow> ModelDownloader" where
  "startDownload m rendered st =
     st\<lparr>currentlyDownloading := Some (localPath m),
        downloadProgress := (downloadProgress rendered)(localPath m \<mapsto> Num 0)\<rparr>"

definition onProgress :: "ModelInfo \<Rightarrow> jsnum \<Rightarrow> ModelDownloader \<Rightarrow> ModelDownloader" where
  "onProgress m progress st =
     st\<lparr>downloadProgress := (downloadProgress st)(localPath m \<mapsto> progress)\<rparr>"

definition finishDownload :: "ModelDownloader \<Rightarrow> ModelDownloader" where
  "finishDownload st = st\<lparr>currentlyDownloading := None\<rparr>"

definition downloadPressed ::
  "rnfs \<Rightarrow> ModelInfo \<Rightarrow> ModelDownloader \<Rightarrow> ModelDownloader \<times> device
     \<Rightarrow> (ModelDownloader \<times> device) \<times> alert list" where
  "downloadPressed fs m rendered sd =
     (let st1 = startDownload m rendered (fst sd);
          r = downloadModel fs m (snd sd);
          st2 = fold (onProgress m) (fst (snd r)) st1;
          shown = (case fst r of
                     Inr mpath \<Rightarrow> [DownloadComplete m mpath]
                   | Inl e \<Rightarrow> [DownloadFailedAlert e])
      in ((finishDownload st2, snd (snd r)), shown))"

text \<open>\<open>progress * 100\<close>, rounded to a double, and \<open>Math.round\<close>, which gives the
  integer nearest to its argument, the upper one of two equally near.\<close>

fun js_times :: "jsnum \<Rightarrow> rat \<Rightarrow> jsnum" where
  "js_times (Num r) k = to_double (r * k)"
| "js_times NaN k = NaN"
| "js_times PosInf k = (if k = 0 then NaN else if 0 < k then PosInf else NegInf)"
| "js_times NegInf k = (if k = 0 then NaN else if 0 < k then NegInf else PosInf)"

fun js_round :: "jsnum \<Rightarrow> jsnum" where
  "js_round (Num r) = Num (rat_of_int \<lfloor>r + 1 / 2\<rfloor>)"
| "js_round NaN = NaN"
| "js_round PosInf = PosInf"
| "js_round NegInf = NegInf"

text \<open>What a row of the list shows: the percentage of the model being downloaded, or the
  download button. \<open>downloadProgress[item.localPath] || 0\<close> reads a missing entry as 0.\<close>

datatype item_view = ProgressText jsnum | DownloadButton

definition shown_progress :: "ModelDownloader \<Rightarrow> ModelInfo \<Rightarrow> jsnum" where
  "shown_progress st item = or_num (downloadProgress st (localPath item)) (Num 0)"

definition renderModelItem :: "ModelDownloader \<Rightarrow> ModelInfo \<Rightarrow> item_view" where
  "renderModelItem st item =
     (if currentlyDownloading st = Some (localPath item)
      then ProgressText (js_round (js_times (shown_progress st item) 100))
      else DownloadButton)"

section \<open>AIChat\<close>

datatype message_id = IdNum nat | IdStr string

record User =
  user_id :: nat
  user_name :: "string option"
  avatar :: "string option"

record IMessage =
  message_id :: message_id
  message_text :: string
  createdAt :: nat
  user :: User

record AIChat =
  messages :: "IMessage list"
  isProcessing :: bool
  chatInitialized :: bool
  initError :: "string option"

text \<open>\<open>GiftedChat.append\<close> of the chat widget, with its default \<open>inverted = true\<close>: the
  new messages go in front.\<close>

definition GiftedChat_append :: "IMessage list \<Rightarrow> IMessage list \<Rightarrow> IMessage list" where
  "GiftedChat_append currentMessages newMessages = newMessages @ currentMessages"

definition assistant :: User where
  "assistant = \<lparr>user_id = 2, user_name = Some ''AI Assistant'',
                 avatar = Some ''https://placeimg.com/140/140/tech''\<rparr>"

definition aiMessage :: "string \<Rightarrow> nat \<Rightarrow> string \<Rightarrow> IMessage" where
  "aiMessage rid now response =
     \<lparr>message_id = IdStr rid, message_text = trim response, createdAt = now, user = assistant\<rparr>"

definition errorMessage :: "string \<Rightarrow> nat \<Rightarrow> IMessage" where
  "errorMessage rid now =
     \<lparr>message_id = IdStr rid,
      message_text = ''Sorry, I encountered an error while processing your request.'',
      createdAt = now, user = assistant\<rparr>"

text \<open>\<open>onSend\<close>, with the random identifier and the clock as arguments. It returns the
  three states; it has no way to throw.\<close>

definition onSend ::
  "llama_rn \<Rightarrow> string \<Rightarrow> nat \<Rightarrow> IMessage list \<Rightarrow> AIChat \<times> LlamaService \<times> engine
     \<Rightarrow> AIChat \<times> LlamaService \<times> engine" where
  "onSend lib rid now newMessages cse =
     (case newMessages of
        [] \<Rightarrow> cse
      | m # rest \<Rightarrow>
          (let chat = fst cse; svc = fst (snd cse); eng = snd (snd cse);
               chat1 = chat\<lparr>messages := GiftedChat_append (messages chat) newMessages\<rparr>;
               userMessage = message_text m;
               chat2 = chat1\<lparr>isProcessing := True\<rparr>;
               r = generateResponse lib userMessage no_options (svc, eng);
               chat3 = (case fst r of
                          Inr response \<Rightarrow>
                            chat2\<lparr>messages :=
                                    GiftedChat_append (messages chat2) [aiMessage rid now response]\<rparr>
                        | Inl e \<Rightarrow>
                            chat2\<lparr>messages :=
                                    GiftedChat_append (messages chat2) [errorMessage rid now]\<rparr>)
           in (chat3\<lparr>isProcessing := False\<rparr>, svc, snd r)))"

section \<open>Concrete libraries and states used in the examples\<close>

definition with_model :: "string \<Rightarrow> PartialOptions" where
  "with_model path = no_options\<lparr>p_modelPath := Val path\<rparr>"

definition echo_lib :: llama_rn where
  "echo_lib =
     \<lparr>initLlama_throws = (\<lambda>params. None), release_throws = (\<lambda>h. None),
      completion_result = (\<lambda>h req. Inr (prompt req))\<rparr>"

definition stuck_lib :: llama_rn where
  "stuck_lib =
     \<lparr>initLlama_throws = (\<lambda>params. None), release_throws = (\<lambda>h. Some ''release failed''),
      completion_result = (\<lambda>h req. Inr (prompt req))\<rparr>"

definition failing_lib :: llama_rn where
  "failing_lib =
     \<lparr>initLlama_throws = (\<lambda>params. None), release_throws = (\<lambda>h. None),
      completion_result = (\<lambda>h req. Inl (EngineError ''out of memory''))\<rparr>"

definition ready_state :: "LlamaService \<times> engine" where
  "ready_state = snd (init echo_lib (with_model ''/models/a.gguf'') (new_service, new_engine))"

text \<open>The substitution as the specification words it: the first occurrence of the literal
  placeholder is replaced by the prompt text, unchanged.\<close>

definition substitute_literal :: "string \<Rightarrow> string \<Rightarrow> string" where
  "substitute_literal template p =
     (case split_first ''{prompt}'' template of
        None \<Rightarrow> template
      | Some (b, a) \<Rightarrow> b @ p @ a)"

definition with_template :: "string \<Rightarrow> PartialOptions" where
  "with_template t = no_options\<lparr>p_promptTemplate := Val t\<rparr>"

definition test_model :: ModelInfo where
  "test_model = \<lparr>model_name = ''Test Model'', model_size = ''1GB'',
                  url = ''https://example/test.gguf'', localPath = ''test.gguf''\<rparr>"

text \<open>The download controller with its list open, and the same while the first model
  of the registry is being downloaded and is reported half done.\<close>

definition listing :: ModelDownloader where
  "listing = new_downloader\<lparr>modalVisible := True\<rparr>"

definition gemma_active :: ModelDownloader where
  "gemma_active = onProgress gemma_2b (Num (1 / 2)) (startDownload gemma_2b listing listing)"

definition android_fs :: rnfs where
  "android_fs =
     \<lparr>platform_os = ''android'', DocumentDirectoryPath = ''/data/docs'',
      ExternalDirectoryPath = ''/sdcard/app'',
      exists_throws = (\<lambda>p. None), mkdir_throws = (\<lambda>p. None),
      downloadFile = (\<lambda>u f. \<lparr>reports = [(512, 1024), (1024, 1024)], written = True,
                               outcome = Inr 200\<rparr>)\<rparr>"

definition empty_device :: device where
  "empty_device = \<lparr>paths = {}, transfers = []\<rparr>"

text \<open>A number that is finite and lies between two bounds.\<close>

fun in_range :: "rat \<Rightarrow> rat \<Rightarrow> jsnum \<Rightarrow> bool" where
  "in_range lo hi (Num r) = (lo \<le> r \<and> r \<le> hi)"
| "in_range lo hi NaN = False"
| "in_range lo hi PosInf = False"
| "in_range lo hi NegInf = False"

definition zero_options :: PartialOptions where
  "zero_options = no_options\<lparr>p_temperature := Val (Num 0), p_maxTokens := Val (Num 0)\<rparr>"

definition new_chat :: AIChat where
  "new_chat = \<lparr>messages = [], isProcessing = False, chatInitialized = True, initError = None\<rparr>"

definition hello :: IMessage where
  "hello = \<lparr>message_id = IdStr ''m1'', message_text = ''hello'', createdAt = 0,
             user = \<lparr>user_id = 1, user_name = None, avatar = None\<rparr>\<rparr>"

section \<open>General facts about the model\<close>

lemma ready_state_eq:
  "ready_state =
     (new_service\<lparr>llamaContext := Some 0, isInitialized := True,
         defaultOptions := (defaultOptions new_service)\<lparr>modelPath := ''/models/a.gguf''\<rparr>\<rparr>,
      new_engine\<lparr>live := [0], fresh := Suc 0,
         created := [(0, \<lparr>model = ''/models/a.gguf'', n_ctx = Some (Num 2048),
                          n_gpu_layers = Some (Num 0), use_mlock = Some True\<rparr>)]\<rparr>)"
  by (simp add: ready_state_def init_def with_model_def no_options_def merge_options_def
      new_service_def new_engine_def echo_lib_def truthy_str_def init_params_of_def)

lemma first_init_succeeds:
  "init echo_lib (with_model ''/models/a.gguf'') (new_service, new_engine)
     = (True, fst ready_state, snd ready_state)"
  by (simp add: ready_state_def init_def with_model_def no_options_def merge_options_def
      new_service_def new_engine_def echo_lib_def truthy_str_def init_params_of_def)

subsection \<open>Release\<close>

lemma cleanup_Uninitialized_noop:
  "llamaContext svc = None \<Longrightarrow> cleanup lib (svc, eng) = (svc, eng)"
  by (simp add: cleanup_def)

lemma cleanup_release_succeeds:
  "llamaContext svc = Some h \<Longrightarrow> release_throws lib h = None \<Longrightarrow>
   cleanup lib (svc, eng) =
     (svc\<lparr>llamaContext := None, isInitialized := False\<rparr>, eng\<lparr>live := removeAll h (live eng)\<rparr>)"
  by (simp add: cleanup_def)

lemma cleanup_release_succeeds_Uninitialized:
  "llamaContext svc = Some h \<Longrightarrow> release_throws lib h = None \<Longrightarrow>
   Uninitialized (fst (cleanup lib (svc, eng)))"
  by (simp add: cleanup_def Uninitialized_def)

lemma cleanup_release_throws:
  "llamaContext svc = Some h \<Longrightarrow> release_throws lib h = Some err \<Longrightarrow>
   cleanup lib (svc, eng) = (svc, eng)"
  by (simp add: cleanup_def)

lemma cleanup_idempotent: "cleanup lib (cleanup lib se) = cleanup lib se"
  by (cases se) (simp add: cleanup_def split: option.splits)

text \<open>
  C1. Release is meant to reach Uninitialized also when the teardown fails. The code does
  not: from the Ready state holding context 0, with a library whose \<open>release\<close> throws,
  \<open>cleanup\<close> returns normally (the error is swallowed) and leaves the service as it was,
  still Ready and still holding context 0.
\<close>

theorem cleanup_failed_release_stays_Ready:
  "Ready (fst ready_state)
   \<and> llamaContext (fst ready_state) = Some 0
   \<and> release_throws stuck_lib 0 = Some ''release failed''
   \<and> cleanup stuck_lib ready_state = ready_state
   \<and> isInitialized (fst (cleanup stuck_lib ready_state))
   \<and> llamaContext (fst (cleanup stuck_lib ready_state)) = Some 0
   \<and> \<not> Uninitialized (fst (cleanup stuck_lib ready_state))"
  by (simp add: ready_state_eq cleanup_def stuck_lib_def Ready_def Uninitialized_def
      new_service_def)

subsection \<open>Initialization and live contexts\<close>

text \<open>
  C2, as the claim states it, fails: initializing again from the Ready state holding
  context 0 succeeds and leaves both context 1 and context 0 live.
\<close>

theorem reinit_keeps_prior_handle_live:
  "Ready (fst ready_state) \<and> live (snd ready_state) = [0]
   \<and> fst (init echo_lib (with_model ''/models/b.gguf'') ready_state)
   \<and> live (snd (snd (init echo_lib (with_model ''/models/b.gguf'') ready_state))) = [1, 0]
   \<and> \<not> length (live (snd (snd (init echo_lib (with_model ''/models/b.gguf'') ready_state)))) \<le> 1"
  by (simp add: ready_state_eq init_def with_model_def no_options_def merge_options_def
      new_service_def new_engine_def echo_lib_def truthy_str_def init_params_of_def Ready_def)

text \<open>
  C2, amended. Initialization never releases a context: every context live before the
  call is live after it, and a successful call adds the new one. The context held before
  is gone from the live ones only when release is called first and its teardown succeeds.
\<close>

theorem init_never_releases:
  "live (snd (snd (init lib options (svc, eng)))) =
     (if fst (init lib options (svc, eng)) then fresh eng # live eng else live eng)
   \<and> (llamaContext svc = Some h \<and> release_throws lib h = None \<longrightarrow>
        live (snd (snd (init lib options (cleanup lib (svc, eng))))) =
          (if fst (init lib options (cleanup lib (svc, eng)))
           then fresh eng # removeAll h (live eng) else removeAll h (live eng)))"
  by (simp add: init_def cleanup_def Let_def split: option.splits)

theorem init_never_releases_witness:
  "llamaContext (fst ready_state) = Some 0 \<and> release_throws echo_lib 0 = None
   \<and> live (snd (snd (init echo_lib (with_model ''/models/b.gguf'') ready_state))) = [1, 0]
   \<and> live (snd (snd (init echo_lib (with_model ''/models/b.gguf'')
                         (cleanup echo_lib ready_state)))) = [1]"
  using init_never_releases
    [of echo_lib "with_model ''/models/b.gguf''" "fst ready_state" "snd ready_state" 0]
  by (simp add: ready_state_eq init_def cleanup_def with_model_def no_options_def
      merge_options_def new_service_def new_engine_def echo_lib_def truthy_str_def
      init_params_of_def)

subsection \<open>Generation\<close>

lemma generateResponse_not_ready:
  "\<not> isInitialized svc \<or> llamaContext svc = None \<Longrightarrow>
   generateResponse lib p options (svc, eng) = (Inl NotInitialized, eng)"
  by (auto simp: generateResponse_def)

lemma generateResponse_after_successful_release:
  "llamaContext svc = None \<or> (\<exists>h. llamaContext svc = Some h \<and> release_throws lib h = None) \<Longrightarrow>
   generateResponse lib p options (cleanup lib (svc, eng)) =
     (Inl NotInitialized, snd (cleanup lib (svc, eng)))"
  by (auto simp: generateResponse_def cleanup_def)

text \<open>
  C5. Release followed by generation is meant to signal the not-initialized error
  always. Generation in the Uninitialized state does (the two lemmas above), but after a
  release whose teardown throws the service is still Ready: generation then sends one
  completion request and returns its text.
\<close>

theorem generate_after_failed_release_completes:
  "fst (generateResponse stuck_lib ''hi'' no_options (cleanup stuck_lib ready_state)) =
     Inr (''<start_of_turn>user'' @ [CHR 0x0A] @ ''hi<end_of_turn>'' @ [CHR 0x0A]
            @ ''<start_of_turn>model'')
   \<and> fst (generateResponse stuck_lib ''hi'' no_options (cleanup stuck_lib ready_state))
        \<noteq> Inl NotInitialized
   \<and> length (requests (snd (generateResponse stuck_lib ''hi'' no_options
                               (cleanup stuck_lib ready_state)))) = 1"
  by (simp add: ready_state_eq cleanup_def stuck_lib_def generateResponse_def new_service_def
      new_engine_def completion_request_def merge_options_def no_options_def format_prompt_def
      default_template_def truthy_str_def js_replace_def trim_def is_space_def stop_words_def
      Let_def)

text \<open>
  C9. A caller's zero for the temperature or for the token limit does not reach the
  engine: in the Ready state the one request sent is \<open>completion_request\<close>, whose
  temperature is 0.7 when the options say 0 and whose token limit is 512 when the
  options say 0.
\<close>

theorem zero_options_replaced_by_defaults:
  "isInitialized svc \<and> llamaContext svc = Some h \<longrightarrow>
     requests (snd (generateResponse lib p options (svc, eng))) =
       requests eng @ [(h, completion_request (defaultOptions svc) options p)]
     \<and> (p_temperature options = Val (Num 0) \<longrightarrow>
          temperature (completion_request (defaultOptions svc) options p) = Num (7 / 10))
     \<and> (p_maxTokens options = Val (Num 0) \<longrightarrow>
          n_predict (completion_request (defaultOptions svc) options p) = Num 512)"
  by (simp add: generateResponse_def completion_request_def merge_options_def Let_def
      split: sum.splits)

theorem zero_options_replaced_by_defaults_witness:
  "isInitialized (fst ready_state) \<and> llamaContext (fst ready_state) = Some 0
   \<and> p_temperature zero_options = Val (Num 0) \<and> p_maxTokens zero_options = Val (Num 0)
   \<and> requests (snd (generateResponse echo_lib ''hi'' zero_options ready_state)) =
       [(0, completion_request (defaultOptions (fst ready_state)) zero_options ''hi'')]
   \<and> temperature (completion_request (defaultOptions (fst ready_state)) zero_options ''hi'')
       = Num (7 / 10)
   \<and> n_predict (completion_request (defaultOptions (fst ready_state)) zero_options ''hi'')
       = Num 512"
  using zero_options_replaced_by_defaults
    [of "fst ready_state" 0 echo_lib "''hi''" zero_options "snd ready_state"]
  by (simp add: ready_state_eq zero_options_def new_engine_def)

subsection \<open>The stored model path\<close>

text \<open>
  C10, as the claim states it, fails for the empty path: after a successful
  initialization, a call that passes the empty string as model path returns failure and
  changes nothing.
\<close>

theorem init_empty_path_after_success_fails:
  "fst (init echo_lib (with_model ''/models/a.gguf'') (new_service, new_engine))
   \<and> modelPath (defaultOptions (fst ready_state)) = ''/models/a.gguf''
   \<and> init echo_lib (with_model []) ready_state = (False, ready_state)"
  by (simp add: ready_state_def init_def with_model_def no_options_def merge_options_def
      new_service_def new_engine_def echo_lib_def truthy_str_def init_params_of_def)

text \<open>
  C10, amended. A successful initialization binds the new context to the path its merged
  options name (the path passed, when one is passed) and stores that same path, which is
  not empty. A later call whose options have no model path property takes the stored
  path, passes the check and asks the engine for a context on that path. A later call
  whose model path property is the empty string or \<open>undefined\<close> overrides the stored
  path, returns failure and changes nothing.
\<close>

theorem reinit_uses_stored_model_path:
  "init lib o1 se = (True, svc1, eng1) \<Longrightarrow>
   modelPath (defaultOptions svc1) \<noteq> []
   \<and> m_modelPath (merge_options (defaultOptions (fst se)) o1)
       = Some (modelPath (defaultOptions svc1))
   \<and> (p_modelPath o1 = Val path \<longrightarrow> modelPath (defaultOptions svc1) = path)
   \<and> llamaContext svc1 = Some (fresh (snd se))
   \<and> created eng1 = created (snd se) @
        [(fresh (snd se), init_params_of (modelPath (defaultOptions svc1))
                            (merge_options (defaultOptions (fst se)) o1))]
   \<and> model (snd (last (created eng1))) = modelPath (defaultOptions svc1)
   \<and> (p_modelPath o2 = Absent \<longrightarrow>
        init lib o2 (svc1, eng1) =
          (case initLlama_throws lib
                  (init_params_of (modelPath (defaultOptions svc1))
                     (merge_options (defaultOptions svc1) o2)) of
             Some err \<Rightarrow> (False, svc1\<lparr>llamaContext := None, isInitialized := False\<rparr>, eng1)
           | None \<Rightarrow>
               (True, svc1\<lparr>llamaContext := Some (fresh eng1)\<rparr>,
                eng1\<lparr>live := fresh eng1 # live eng1, fresh := Suc (fresh eng1),
                     created := created eng1 @
                       [(fresh eng1, init_params_of (modelPath (defaultOptions svc1))
                                       (merge_options (defaultOptions svc1) o2))]\<rparr>)))
   \<and> (p_modelPath o2 = Val [] \<or> p_modelPath o2 = Undefined \<longrightarrow>
        init lib o2 (svc1, eng1) = (False, svc1, eng1))"
proof -
  assume first: "init lib o1 se = (True, svc1, eng1)"
  then have nonempty: "modelPath (defaultOptions svc1) \<noteq> []"
    by (auto simp: init_def Let_def truthy_str_def split: option.splits if_splits)
  from first have ready: "isInitialized svc1"
    by (auto simp: init_def Let_def split: option.splits if_splits)
  from first have merged: "m_modelPath (merge_options (defaultOptions (fst se)) o1)
       = Some (modelPath (defaultOptions svc1))"
    by (auto simp: init_def Let_def split: option.splits if_splits)
  then have passed: "p_modelPath o1 = Val path \<longrightarrow> modelPath (defaultOptions svc1) = path"
    by (auto simp: merge_options_def)
  from first have held: "llamaContext svc1 = Some (fresh (snd se))"
    by (auto simp: init_def Let_def split: option.splits if_splits)
  from first have bound: "created eng1 = created (snd se) @
        [(fresh (snd se), init_params_of (modelPath (defaultOptions svc1))
                            (merge_options (defaultOptions (fst se)) o1))]"
    by (auto simp: init_def Let_def split: option.splits if_splits)
  then have last_bound: "model (snd (last (created eng1))) = modelPath (defaultOptions svc1)"
    by (simp add: init_params_of_def)
  have absent: "p_modelPath o2 = Absent \<longrightarrow>
        init lib o2 (svc1, eng1) =
          (case initLlama_throws lib
                  (init_params_of (modelPath (defaultOptions svc1))
                     (merge_options (defaultOptions svc1) o2)) of
             Some err \<Rightarrow> (False, svc1\<lparr>llamaContext := None, isInitialized := False\<rparr>, eng1)
           | None \<Rightarrow>
               (True, svc1\<lparr>llamaContext := Some (fresh eng1)\<rparr>,
                eng1\<lparr>live := fresh eng1 # live eng1, fresh := Suc (fresh eng1),
                     created := created eng1 @
                       [(fresh eng1, init_params_of (modelPath (defaultOptions svc1))
                                       (merge_options (defaultOptions svc1) o2))]\<rparr>))"
    using nonempty ready
    by (simp add: init_def Let_def truthy_str_def merge_options_def split: option.splits)
  have falsy: "p_modelPath o2 = Val [] \<or> p_modelPath o2 = Undefined \<longrightarrow>
        init lib o2 (svc1, eng1) = (False, svc1, eng1)"
    by (auto simp: init_def Let_def truthy_str_def merge_options_def)
  from nonempty merged passed held bound last_bound absent falsy show ?thesis
    by (intro conjI)
qed

theorem reinit_uses_stored_model_path_witness:
  "init echo_lib (with_model ''/models/a.gguf'') (new_service, new_engine)
     = (True, fst ready_state, snd ready_state)
   \<and> p_modelPath (with_model ''/models/a.gguf'') = Val ''/models/a.gguf''
   \<and> modelPath (defaultOptions (fst ready_state)) = ''/models/a.gguf''
   \<and> model (snd (last (created (snd ready_state)))) = ''/models/a.gguf''
   \<and> p_modelPath no_options = Absent \<and> p_modelPath (with_model []) = Val []
   \<and> fst (init echo_lib no_options ready_state)
   \<and> created (snd (snd (init echo_lib no_options ready_state))) =
       [(0, \<lparr>model = ''/models/a.gguf'', n_ctx = Some (Num 2048),
              n_gpu_layers = Some (Num 0), use_mlock = Some True\<rparr>),
        (1, \<lparr>model = ''/models/a.gguf'', n_ctx = Some (Num 2048),
              n_gpu_layers = Some (Num 0), use_mlock = Some True\<rparr>)]
   \<and> init echo_lib (with_model []) ready_state = (False, ready_state)"
  using reinit_uses_stored_model_path
      [OF first_init_succeeds, of "''/models/a.gguf''" no_options]
    reinit_uses_stored_model_path
      [OF first_init_succeeds, of "''/models/a.gguf''" "with_model []"]
    first_init_succeeds
  by (simp add: ready_state_eq with_model_def no_options_def merge_options_def
      new_service_def new_engine_def echo_lib_def init_params_of_def)

subsection \<open>Prompt substitution\<close>

lemma get_substitution_no_dollar:
  "CHR ''$'' \<notin> set r \<Longrightarrow> get_substitution m b a r = r"
  by (induction m b a r rule: get_substitution.induct) auto

lemma split_first_sound:
  "split_first pat s = Some (b, a) \<Longrightarrow> s = b @ pat @ a"
proof (induction s arbitrary: b a)
  case Nil
  then show ?case by (simp split: if_splits)
next
  case (Cons c cs)
  show ?case
  proof (cases "take (length pat) (c # cs) = pat")
    case True
    with Cons.prems have "b = []" "a = drop (length pat) (c # cs)" by simp_all
    with True show ?thesis by (metis append_Nil append_take_drop_id)
  next
    case False
    with Cons.prems obtain b' where "split_first pat cs = Some (b', a)" "b = c # b'"
      by (auto split: option.splits)
    with Cons.IH show ?thesis by simp
  qed
qed

text \<open>For a prompt without a dollar sign the code does what the specification says.\<close>

lemma js_replace_literal:
  "CHR ''$'' \<notin> set p \<Longrightarrow> js_replace t ''{prompt}'' p = substitute_literal t p"
  by (simp add: js_replace_def substitute_literal_def get_substitution_no_dollar
      split: option.splits)

lemma format_prompt_literal:
  "CHR ''$'' \<notin> set p \<Longrightarrow> m_promptTemplate mo = Some t \<Longrightarrow> t \<noteq> [] \<Longrightarrow>
   format_prompt mo p = substitute_literal t p"
  by (simp add: format_prompt_def truthy_str_def js_replace_literal)

lemma template_scenario:
  "prompt (completion_request d (with_template ''<a>{prompt}<b>'') ''hi'') = ''<a>hi<b>''"
  by (simp add: completion_request_def with_template_def merge_options_def no_options_def
      format_prompt_def truthy_str_def js_replace_def Let_def)

text \<open>
  C6. The prompt is meant to replace the placeholder unchanged, for every prompt. The
  code passes the prompt as the replacement argument of \<open>replace\<close>, where \<open>$&\<close>
  stands for the matched text: with the template \<open><a>{prompt}<b>\<close> the prompt
  \<open>What does $& mean?\<close> is sent as \<open><a>What does {prompt} mean?<b>\<close>, and not as
  the literal substitution \<open><a>What does $& mean?<b>\<close>.
\<close>

theorem replace_expands_dollar_patterns:
  "prompt (completion_request d (with_template ''<a>{prompt}<b>'') ''What does $& mean?'')
     = ''<a>What does {prompt} mean?<b>''
   \<and> substitute_literal ''<a>{prompt}<b>'' ''What does $& mean?''
     = ''<a>What does $& mean?<b>''
   \<and> prompt (completion_request d (with_template ''<a>{prompt}<b>'') ''What does $& mean?'')
     \<noteq> substitute_literal ''<a>{prompt}<b>'' ''What does $& mean?''"
  by (simp add: completion_request_def with_template_def merge_options_def no_options_def
      format_prompt_def truthy_str_def js_replace_def substitute_literal_def Let_def)

section \<open>Facts about the chat controller\<close>

text \<open>
  C7. When generation fails for the text of the one message sent, the message list
  afterwards is the fallback error message, then the user's message, then the list as it
  was (the newest entry is first): two entries more. The processing flag ends false, and
  \<open>onSend\<close> returns its states, with no error.
\<close>

theorem onSend_generate_fails:
  "fst (generateResponse lib (message_text m) no_options (svc, eng)) = Inl e \<Longrightarrow>
   messages (fst (onSend lib rid now [m] (chat, svc, eng)))
     = errorMessage rid now # m # messages chat
   \<and> length (messages (fst (onSend lib rid now [m] (chat, svc, eng))))
     = length (messages chat) + 2
   \<and> \<not> isProcessing (fst (onSend lib rid now [m] (chat, svc, eng)))"
  by (simp add: onSend_def GiftedChat_append_def Let_def)

lemma generate_fails_example:
  "fst (generateResponse failing_lib (message_text hello) no_options
          (fst ready_state, snd ready_state)) = Inl (EngineError ''out of memory'')"
  by (simp add: ready_state_eq generateResponse_def failing_lib_def new_service_def Let_def)

theorem onSend_generate_fails_witness:
  "fst (generateResponse failing_lib (message_text hello) no_options
          (fst ready_state, snd ready_state)) = Inl (EngineError ''out of memory'')
   \<and> messages (fst (onSend failing_lib ''k3x9'' 7 [hello]
                      (new_chat, fst ready_state, snd ready_state)))
       = [errorMessage ''k3x9'' 7, hello]
   \<and> \<not> isProcessing (fst (onSend failing_lib ''k3x9'' 7 [hello]
                            (new_chat, fst ready_state, snd ready_state)))"
  using onSend_generate_fails [OF generate_fails_example, of "''k3x9''" 7 new_chat]
    generate_fails_example
  by (simp add: new_chat_def)

section \<open>Facts about the model store and the download controller\<close>

subsection \<open>Rounding\<close>

lemma norm_up_scales:
  "norm_up n k y = (y', k') \<Longrightarrow> k \<le> k' \<and> y' = y * 2 ^ (k' - k)"
proof (induction n arbitrary: k y)
  case 0
  then show ?case by simp
next
  case (Suc n)
  show ?case
  proof (cases "2 ^ 52 \<le> y")
    case True
    with Suc.prems show ?thesis by simp
  next
    case False
    with Suc.prems have "norm_up n (Suc k) (2 * y) = (y', k')" by simp
    then have le: "Suc k \<le> k'" and eq: "y' = 2 * y * 2 ^ (k' - Suc k)"
      using Suc.IH by blast+
    from le have "k' - k = Suc (k' - Suc k)" by simp
    with le eq show ?thesis by simp
  qed
qed

lemma round_even_le: "y \<le> rat_of_int N \<Longrightarrow> round_even y \<le> N"
proof -
  assume le: "y \<le> rat_of_int N"
  then have f: "\<lfloor>y\<rfloor> \<le> N" by (simp add: floor_le_iff)
  show ?thesis
  proof (cases "y = rat_of_int \<lfloor>y\<rfloor>")
    case True
    then have "y - rat_of_int \<lfloor>y\<rfloor> < 1 / 2" by simp
    with f show ?thesis by (simp add: round_even_def Let_def)
  next
    case False
    moreover have "rat_of_int \<lfloor>y\<rfloor> \<le> y" by (rule of_int_floor_le)
    ultimately have "rat_of_int \<lfloor>y\<rfloor> < y" by (metis less_le)
    with le have "rat_of_int \<lfloor>y\<rfloor> < rat_of_int N" by simp
    then have "\<lfloor>y\<rfloor> + 1 \<le> N" by simp
    with f show ?thesis by (simp add: round_even_def Let_def)
  qed
qed

lemma round_even_nonneg: "0 \<le> y \<Longrightarrow> 0 \<le> round_even y"
  by (simp add: round_even_def Let_def)

text \<open>Rounding does not cross a whole number below \<open>2 ^ 53\<close>: such a number is a
  double, and a multiple of the spacing of the doubles below it.\<close>

lemma to_double_between:
  assumes "0 \<le> x" and "x \<le> rat_of_int c" and "c < 2 ^ 53"
  shows "in_range 0 (rat_of_int c) (to_double x)"
proof (cases "x = 0")
  case True
  with assms show ?thesis by (simp add: to_double_def)
next
  case False
  with assms have pos: "0 < x" by simp
  from assms have small: "x < 2 ^ 53"
  proof -
    from \<open>c < 2 ^ 53\<close> have "rat_of_int c < rat_of_int (2 ^ 53)" by (simp only: of_int_less_iff)
    with \<open>x \<le> rat_of_int c\<close> show ?thesis by simp
  qed
  obtain y k where n: "norm_up 1074 0 x = (y, k)" by (cases "norm_up 1074 0 x")
  then have y: "y = x * 2 ^ k" using norm_up_scales [of 1074 0 x y k] by simp
  with pos have "0 \<le> y" by simp
  then have lo: "0 \<le> round_even y" by (rule round_even_nonneg)
  from y assms have "y \<le> rat_of_int c * 2 ^ k" by simp
  then have "y \<le> rat_of_int (c * 2 ^ k)" by simp
  then have "round_even y \<le> c * 2 ^ k" by (rule round_even_le)
  then have "rat_of_int (round_even y) \<le> rat_of_int (c * 2 ^ k)" by (simp only: of_int_le_iff)
  then have hi: "rat_of_int (round_even y) / 2 ^ k \<le> rat_of_int c"
    by (simp add: divide_le_eq)
  from pos small n lo hi show ?thesis
    by (simp add: to_double_def to_double_pos_def)
qed

text \<open>Evaluation: the number of doublings is the one that brings the number into the
  range of the significand, and a number that is not half way between two whole numbers
  rounds to the nearest.\<close>

lemma norm_up_steps:
  "0 < y \<Longrightarrow> 2 ^ 52 \<le> y * 2 ^ j \<Longrightarrow> y * 2 ^ j < 2 ^ 53 \<Longrightarrow> j \<le> n \<Longrightarrow>
   norm_up n k y = (y * 2 ^ j, k + j)"
proof (induction j arbitrary: n k y)
  case 0
  then show ?case by (cases n) simp_all
next
  case (Suc j)
  from Suc.prems obtain n' where n: "n = Suc n'" and jn: "j \<le> n'" by (cases n) simp_all
  from Suc.prems have "y * 2 < 2 ^ 53 / 2 ^ j" by (simp add: field_simps)
  also have "\<dots> \<le> 2 ^ 53" by (simp add: field_simps)
  finally have "y < 2 ^ 52" by simp
  moreover have "norm_up n' (Suc k) (2 * y) = (2 * y * 2 ^ j, Suc k + j)"
    using Suc.prems jn by (intro Suc.IH) (simp_all add: mult.assoc mult.left_commute)
  ultimately show ?case by (simp add: n mult.assoc mult.left_commute)
qed

lemma to_double_pos_steps:
  assumes "0 < x" and "2 ^ 52 \<le> x * 2 ^ j" and "x * 2 ^ j < 2 ^ 53" and "j \<le> 1074"
  shows "to_double_pos x = Num (rat_of_int (round_even (x * 2 ^ j)) / 2 ^ j)"
proof -
  have "x \<le> x * 2 ^ j" using assms(1) by simp
  also note assms(3)
  finally have "x < 2 ^ 53" .
  moreover have "norm_up 1074 0 x = (x * 2 ^ j, 0 + j)"
    using assms by (rule norm_up_steps)
  ultimately show ?thesis by (simp add: to_double_pos_def)
qed

lemma round_even_nearest:
  "rat_of_int n - 1 / 2 < y \<Longrightarrow> y < rat_of_int n + 1 / 2 \<Longrightarrow> round_even y = n"
proof -
  assume lo: "rat_of_int n - 1 / 2 < y" and hi: "y < rat_of_int n + 1 / 2"
  show ?thesis
  proof (cases "rat_of_int n \<le> y")
    case True
    with hi have "\<lfloor>y\<rfloor> = n" by (simp add: floor_eq_iff)
    with hi show ?thesis by (simp add: round_even_def Let_def)
  next
    case False
    with lo have "\<lfloor>y\<rfloor> = n - 1" by (simp add: floor_eq_iff)
    with lo show ?thesis by (simp add: round_even_def Let_def)
  qed
qed

lemma to_double_half: "to_double (1 / 2) = Num (1 / 2)"
proof -
  have "to_double_pos (1 / 2) = Num (rat_of_int (round_even (1 / 2 * 2 ^ 53)) / 2 ^ 53)"
    by (rule to_double_pos_steps) simp_all
  moreover have "round_even (1 / 2 * 2 ^ 53) = 2 ^ 52"
    by (rule round_even_nearest) simp_all
  ultimately show ?thesis by (simp add: to_double_def)
qed

lemma to_double_one: "to_double 1 = Num 1"
proof -
  have "to_double_pos 1 = Num (rat_of_int (round_even (1 * 2 ^ 52)) / 2 ^ 52)"
    by (rule to_double_pos_steps) simp_all
  moreover have "round_even (1 * 2 ^ 52) = 2 ^ 52"
    by (rule round_even_nearest) simp_all
  ultimately show ?thesis by (simp add: to_double_def)
qed

lemma to_double_neg_1024: "to_double (- 1024) = Num (- 1024)"
proof -
  have "to_double_pos 1024 = Num (rat_of_int (round_even (1024 * 2 ^ 42)) / 2 ^ 42)"
    by (rule to_double_pos_steps) simp_all
  moreover have "round_even (1024 * 2 ^ 42) = 2 ^ 52"
    by (rule round_even_nearest) simp_all
  ultimately show ?thesis by (simp add: to_double_def)
qed

lemma to_double_neg_102400: "to_double (- 102400) = Num (- 102400)"
proof -
  have "to_double_pos 102400 = Num (rat_of_int (round_even (102400 * 2 ^ 36)) / 2 ^ 36)"
    by (rule to_double_pos_steps) simp_all
  moreover have "round_even (102400 * 2 ^ 36) = 102400 * 2 ^ 36"
    by (rule round_even_nearest) simp_all
  ultimately show ?thesis by (simp add: to_double_def)
qed

text \<open>Two quotients that no double holds: a third, and 29 of 200 bytes, whose percentage
  falls just below fourteen and a half and is shown as 14.\<close>

lemma progress_1_of_3: "report_progress (1, 3) = Num (6004799503160661 / 2 ^ 54)"
proof -
  have "to_double_pos (1 / 3) = Num (rat_of_int (round_even (1 / 3 * 2 ^ 54)) / 2 ^ 54)"
    by (rule to_double_pos_steps) simp_all
  moreover have "round_even (1 / 3 * 2 ^ 54) = 6004799503160661"
    by (rule round_even_nearest) simp_all
  ultimately show ?thesis by (simp add: report_progress_def js_div_def to_double_def)
qed

lemma progress_29_of_200:
  "report_progress (29, 200) = Num (5224175567749775 / 2 ^ 55)"
  "js_times (report_progress (29, 200)) 100 = Num (8162774324609023 / 2 ^ 49)"
  "js_round (js_times (report_progress (29, 200)) 100) = Num 14"
proof -
  have "to_double_pos (29 / 200) = Num (rat_of_int (round_even (29 / 200 * 2 ^ 55)) / 2 ^ 55)"
    by (rule to_double_pos_steps) simp_all
  moreover have "round_even (29 / 200 * 2 ^ 55) = 5224175567749775"
    by (rule round_even_nearest) simp_all
  ultimately show p: "report_progress (29, 200) = Num (5224175567749775 / 2 ^ 55)"
    by (simp add: report_progress_def js_div_def to_double_def)
  have "to_double_pos (5224175567749775 / 2 ^ 55 * 100) =
      Num (rat_of_int (round_even (5224175567749775 / 2 ^ 55 * 100 * 2 ^ 49)) / 2 ^ 49)"
    by (rule to_double_pos_steps) simp_all
  moreover have "round_even (5224175567749775 / 2 ^ 55 * 100 * 2 ^ 49) = 8162774324609023"
    by (rule round_even_nearest) simp_all
  ultimately show t: "js_times (report_progress (29, 200)) 100 = Num (8162774324609023 / 2 ^ 49)"
    by (simp add: p to_double_def)
  have "\<lfloor>8162774324609023 / 2 ^ 49 + 1 / 2 :: rat\<rfloor> = 14"
    by (simp add: floor_eq_iff)
  then show "js_round (js_times (report_progress (29, 200)) 100) = Num 14"
    by (simp add: t)
qed

subsection \<open>The guard of the download controller\<close>

lemma registry_local_paths_nonempty:
  "list_all (\<lambda>m. localPath m \<noteq> []) availableModels"
  by (simp add: availableModels_def gemma_2b_def phi_2_def)

lemma onProgress_keeps_marker:
  "currentlyDownloading (fold (onProgress a) ps st) = currentlyDownloading st"
  by (induction ps arbitrary: st) (simp_all add: onProgress_def)

text \<open>A request made from the list while the marker holds a non-empty file name is
  rejected and changes nothing; so it is while an entry of the registry is being
  downloaded, through all its progress reports.\<close>

lemma handleDownload_rejects_while_marker_set:
  "currentlyDownloading st = Some p \<Longrightarrow> p \<noteq> [] \<Longrightarrow>
   handleDownload m st = (st, [DownloadInProgress])"
  by (simp add: handleDownload_def truthy_str_def)

lemma handleDownload_rejects_registry_download:
  "a \<in> set availableModels \<Longrightarrow>
   handleDownload m (fold (onProgress a) ps (startDownload a rendered st0)) =
     (fold (onProgress a) ps (startDownload a rendered st0), [DownloadInProgress])"
  by (auto simp: handleDownload_def onProgress_keeps_marker startDownload_def truthy_str_def
      availableModels_def gemma_2b_def phi_2_def)

text \<open>
  C3. A download request that arrives while a download is active is meant to be rejected
  with no state change. The guard stands only where the confirmation dialog is opened,
  not in the handler of its \<open>Download\<close> button. With the list open and nothing being
  downloaded, requests for both models of the registry open their dialogs. After the
  first is confirmed and reported half done, confirming the second is not rejected: it
  replaces the marker, writes the progress record of the render that opened its dialog,
  which drops the first model's progress, performs its transfer, shows the completion
  dialog, and clears the marker while the first download is still running.
\<close>

theorem download_button_unguarded:
  "handleDownload gemma_2b listing = (listing, [ConfirmDownload gemma_2b])
   \<and> handleDownload phi_2 listing = (listing, [ConfirmDownload phi_2])
   \<and> currentlyDownloading gemma_active = Some (localPath gemma_2b)
   \<and> downloadProgress gemma_active (localPath gemma_2b) = Some (Num (1 / 2))
   \<and> currentlyDownloading (startDownload phi_2 listing gemma_active) = Some (localPath phi_2)
   \<and> downloadProgress (startDownload phi_2 listing gemma_active) (localPath gemma_2b) = None
   \<and> snd (downloadPressed android_fs phi_2 listing (gemma_active, empty_device))
       = [DownloadComplete phi_2 ''/sdcard/app/models/phi-2.Q4_K_M.gguf'']
   \<and> snd (downloadPressed android_fs phi_2 listing (gemma_active, empty_device))
       \<noteq> [DownloadInProgress]
   \<and> currentlyDownloading
        (fst (fst (downloadPressed android_fs phi_2 listing (gemma_active, empty_device))))
       = None
   \<and> downloadProgress
        (fst (fst (downloadPressed android_fs phi_2 listing (gemma_active, empty_device))))
        (localPath gemma_2b) = None
   \<and> transfers
        (snd (fst (downloadPressed android_fs phi_2 listing (gemma_active, empty_device))))
       = [(url phi_2, ''/sdcard/app/models/phi-2.Q4_K_M.gguf'')]"
  by (simp add: handleDownload_def listing_def new_downloader_def gemma_active_def
      startDownload_def onProgress_def finishDownload_def downloadPressed_def
      downloadModel_def ensureModelsDir_def checkModelExists_def getModelPath_def
      getModelsDir_def android_fs_def empty_device_def gemma_2b_def phi_2_def
      report_progress_def js_div_def to_double_half to_double_one Let_def)

subsection \<open>Downloading twice\<close>




subsection \<open>Progress\<close>

lemma fraction_bounds:
  fixes bw cl :: int
  assumes "0 \<le> bw" "bw \<le> cl" "0 < cl"
  shows "0 \<le> rat_of_int bw / rat_of_int cl" and "rat_of_int bw / rat_of_int cl \<le> 1"
  using assms by simp_all

lemma round_percent_bounds:
  fixes r :: rat
  assumes "0 \<le> r" "r \<le> 100"
  shows "0 \<le> \<lfloor>r + 1 / 2\<rfloor>" and "\<lfloor>r + 1 / 2\<rfloor> \<le> 100"
proof -
  from assms show "0 \<le> \<lfloor>r + 1 / 2\<rfloor>" by simp
  from assms have "r + 1 / 2 < 101" by simp
  then have "\<lfloor>r + 1 / 2\<rfloor> < 101" by (simp add: floor_less_iff)
  then show "\<lfloor>r + 1 / 2\<rfloor> \<le> 100" by simp
qed

text \<open>
  C8, as the claim states it, fails: nothing clamps. A report of 1024 bytes written with
  content length -1 gives the progress -1024, outside the unit interval, and the row of
  the model being downloaded shows -102400 per cent.
\<close>

theorem progress_outside_unit_interval:
  "report_progress (1024, - 1) = Num (- 1024)
   \<and> \<not> in_range 0 1 (report_progress (1024, - 1))
   \<and> renderModelItem
        (onProgress test_model (report_progress (1024, - 1))
           (startDownload test_model new_downloader new_downloader)) test_model
       = ProgressText (Num (- 102400))
   \<and> \<not> in_range 0 100 (Num (- 102400))"
proof -
  have "\<lfloor>- (204799 / 2 :: rat)\<rfloor> = - 102400"
    by (simp add: floor_eq_iff)
  then show ?thesis
    by (simp add: report_progress_def js_div_def renderModelItem_def onProgress_def
        startDownload_def shown_progress_def to_double_neg_1024 to_double_neg_102400)
qed

text \<open>
  C8, amended. The progress reported for a descriptor is the quotient of the bytes
  written by the content length, as a double, and the row of the model being downloaded
  shows that quotient times 100, as a double, rounded to a whole number, with no clamping.
  When the bytes written are between 0 and a positive content length (byte counts that
  a double holds exactly, up to \<open>2 ^ 53\<close>), the progress lies in the unit interval and the
  percentage shown lies between 0 and 100.
\<close>

theorem progress_in_range_when_bytes_bounded:
  "0 \<le> bw \<and> bw \<le> cl \<and> 0 < cl \<and> cl \<le> 2 ^ 53
     \<and> currentlyDownloading st = Some (localPath m) \<longrightarrow>
     in_range 0 1 (report_progress (bw, cl))
     \<and> renderModelItem (onProgress m (report_progress (bw, cl)) st) m =
         ProgressText (js_round (js_times (report_progress (bw, cl)) 100))
     \<and> in_range 0 100 (js_round (js_times (report_progress (bw, cl)) 100))"
proof (intro impI, elim conjE)
  assume h: "0 \<le> bw" "bw \<le> cl" "0 < cl" and d: "currentlyDownloading st = Some (localPath m)"
  from h have q: "0 \<le> rat_of_int bw / rat_of_int cl" "rat_of_int bw / rat_of_int cl \<le> 1"
    by (rule fraction_bounds)+
  from h have rp: "report_progress (bw, cl) = to_double (rat_of_int bw / rat_of_int cl)"
    by (simp add: report_progress_def js_div_def)
  have "in_range 0 (rat_of_int 1) (to_double (rat_of_int bw / rat_of_int cl))"
    using q by (intro to_double_between) simp_all
  then have unit: "in_range 0 1 (report_progress (bw, cl))" by (simp add: rp)
  then obtain r where r: "report_progress (bw, cl) = Num r" and r01: "0 \<le> r" "r \<le> 1"
    by (cases "report_progress (bw, cl)") simp_all
  have "in_range 0 (rat_of_int 100) (to_double (r * 100))"
    using r01 by (intro to_double_between) simp_all
  then obtain r2 where r2: "to_double (r * 100) = Num r2" and r2b: "0 \<le> r2" "r2 \<le> 100"
    by (cases "to_double (r * 100)") simp_all
  have shown: "shown_progress (onProgress m (Num r) st) m = Num r"
    by (simp add: shown_progress_def onProgress_def)
  from d have row: "renderModelItem (onProgress m (Num r) st) m =
      ProgressText (js_round (js_times (Num r) 100))"
    by (simp add: renderModelItem_def shown) (simp add: onProgress_def)
  from r2b have "in_range 0 100 (js_round (Num r2))"
    using round_percent_bounds [of r2] by simp
  with unit row show "in_range 0 1 (report_progress (bw, cl))
     \<and> renderModelItem (onProgress m (report_progress (bw, cl)) st) m =
         ProgressText (js_round (js_times (report_progress (bw, cl)) 100))
     \<and> in_range 0 100 (js_round (js_times (report_progress (bw, cl)) 100))"
    by (simp add: r r2)
qed

theorem progress_in_range_when_bytes_bounded_witness:
  "(0::int) \<le> 29 \<and> (29::int) \<le> 200 \<and> (0::int) < 200 \<and> (200::int) \<le> 2 ^ 53
   \<and> currentlyDownloading (startDownload test_model new_downloader new_downloader)
         = Some (localPath test_model)
   \<and> in_range 0 1 (report_progress (29, 200))
   \<and> renderModelItem (onProgress test_model (report_progress (29, 200))
        (startDownload test_model new_downloader new_downloader)) test_model
       = ProgressText (js_round (js_times (report_progress (29, 200)) 100))
   \<and> in_range 0 100 (js_round (js_times (report_progress (29, 200)) 100))"
  using progress_in_range_when_bytes_bounded
    [of 29 200 "startDownload test_model new_downloader new_downloader" test_model]
  by (simp add: startDownload_def)

end
